theory Spec2Isabelle
  imports Main "HOL-Library.Sublist"
begin

section \<open>Strings and constants of \<^verbatim>\<open>app.py\<close>\<close>

text \<open>
  A Python \<^verbatim>\<open>str\<close> is a sequence of Unicode code points, and the literals of the program
  are mostly Amharic, so a string is modelled as the list of its code points. \<open>ascii\<close>
  embeds a run of plain ASCII text; every other code point is written as a numeral
  (\<open>0x12ED\<close> is the Ethiopic syllable YI, \<open>0x20\<close> a space, \<open>0xA\<close> a newline, \<open>0x27\<close> an
  apostrophe). The empty list is the empty string, \<open>@\<close> is concatenation, and the
  substring test \<^verbatim>\<open>a in b\<close> is \<open>sublist a b\<close>.
\<close>

type_synonym str = "nat list"

definition ascii :: "string \<Rightarrow> str" where
  "ascii s = map of_char s"

definition LANG_AMHARIC :: str where
  "LANG_AMHARIC = ascii ''AM''"

definition LANG_ENGLISH :: str where
  "LANG_ENGLISH = ascii ''EN''"

definition ACTION_ABOUT :: str where
  "ACTION_ABOUT = ascii ''ABOUT_CH''"

definition MAX_RETRIES :: nat where
  "MAX_RETRIES = 3"

section \<open>The Gemini API handler\<close>

subsection \<open>The strings it returns\<close>

text \<open>Line 65: the model was never configured.\<close>

definition MSG_CONFIG_ERROR :: str where
  "MSG_CONFIG_ERROR =
     [0x1F6D1] @
     ascii '' ERROR: Gemini API key is missing or invalid. Please check the server configuration.''"

text \<open>Line 76: the daily usage limit is met.\<close>

definition MSG_QUOTA :: str where
  "MSG_QUOTA =
     [0x12ED, 0x1245, 0x122D, 0x1273, 0x1363, 0x20, 0x12E8, 0x1266, 0x1271, 0x20, 0x12E8,
      0x12D5, 0x1208, 0x1273, 0x12CA, 0x20, 0x12E8, 0x12A0, 0x1320, 0x1243, 0x1240, 0x121D,
      0x20, 0x1308, 0x12F0, 0x1265, 0x20, 0x1235, 0x1208, 0x1270, 0x121F, 0x120B, 0x20,
      0x1218, 0x120D, 0x1235, 0x20, 0x1218, 0x1235, 0x1320, 0x1275, 0x20, 0x12A0, 0x120D,
      0x127B, 0x120D, 0x12A9, 0x121D, 0x1362] @ ascii '' (Sorry, the bot'' @ [0x27] @
     ascii ''s daily usage limit has been met.)''"

text \<open>Line 81: the API key is not valid.\<close>

definition MSG_INVALID_KEY :: str where
  "MSG_INVALID_KEY =
     [0x26A0, 0xFE0F, 0x20, 0x12ED, 0x1245, 0x122D, 0x1273, 0x1363, 0x20, 0x12EB, 0x1308,
      0x1208, 0x1308, 0x1209, 0x1275, 0x20, 0x1241, 0x120D, 0x134D] @ ascii '' (API Key) '' @
     [0x120D, 0x12AD, 0x20, 0x12A0, 0x12ED, 0x12F0, 0x1208, 0x121D, 0x1362, 0x20, 0x12A5,
      0x1263, 0x12AD, 0x12CE, 0x20, 0x12E8, 0x12A0, 0x1308, 0x120D, 0x130D, 0x120E, 0x1275,
      0x20, 0x1230, 0x132A, 0x12CD, 0x1295] @ ascii '' Environment Variables '' @
     [0x1260, 0x1275, 0x12AD, 0x12AD, 0x120D, 0x20, 0x12EB, 0x1228, 0x130B, 0x130D, 0x1321,
      0x1362]"

text \<open>Line 87: the last attempt ended in an \<^verbatim>\<open>APIError\<close> ("technical issue").\<close>

definition MSG_TECHNICAL :: str where
  "MSG_TECHNICAL =
     [0x12ED, 0x1245, 0x122D, 0x1273, 0x1363, 0x20, 0x1260, 0x1294, 0x1275, 0x12C8, 0x122D,
      0x12AD, 0x20, 0x12C8, 0x12ED, 0x121D, 0x20, 0x1260, 0x1274, 0x12AD, 0x1292, 0x12AB,
      0x12CA, 0x20, 0x127D, 0x130D, 0x122D, 0x20, 0x121D, 0x12AD, 0x1295, 0x12EB, 0x1275,
      0x20, 0x121D, 0x120B, 0x123D, 0x20, 0x1218, 0x1235, 0x1320, 0x1275, 0x20, 0x12A0,
      0x120D, 0x127B, 0x120D, 0x12A9, 0x121D, 0x1362] @
     ascii '' (Sorry, failed to respond due to a technical issue.)''"

text \<open>Line 94: the last attempt ended in any other exception ("unknown connection error").\<close>

definition MSG_UNKNOWN :: str where
  "MSG_UNKNOWN =
     [0x12ED, 0x1245, 0x122D, 0x1273, 0x1363, 0x20, 0x12EB, 0x120D, 0x1273, 0x12C8, 0x1240,
      0x20, 0x130D, 0x1295, 0x1299, 0x1290, 0x1275, 0x20, 0x1218, 0x124B, 0x1228, 0x1325,
      0x20, 0x12A0, 0x130B, 0x1325, 0x121F, 0x120D, 0x1362] @
     ascii '' (Sorry, an unknown connection error occurred.)''"

text \<open>Line 95: the return after the loop ("all attempts failed").\<close>

definition MSG_ALL_FAILED :: str where
  "MSG_ALL_FAILED =
     [0x12ED, 0x1245, 0x122D, 0x1273, 0x1363, 0x20, 0x12E8, 0x1218, 0x120D, 0x1235, 0x20,
      0x1219, 0x12A8, 0x122B, 0x12CD, 0x20, 0x1201, 0x1209, 0x20, 0x12A0, 0x120D, 0x1270,
      0x1233, 0x12AB, 0x121D, 0x1362]"

subsection \<open>The model client\<close>

text \<open>
  \<^verbatim>\<open>model.generate_content(prompt)\<close> either returns a response, of which the program reads
  only \<^verbatim>\<open>response.text\<close>, or raises. The \<^verbatim>\<open>except\<close> clauses of the handler tell three classes
  apart, in this order: \<^verbatim>\<open>ResourceExhaustedError\<close>, \<^verbatim>\<open>APIError\<close> and every other \<^verbatim>\<open>Exception\<close>.
  What is raised may also be outside all three: an exception that does not derive from
  \<^verbatim>\<open>Exception\<close> (\<^verbatim>\<open>KeyboardInterrupt\<close>, \<^verbatim>\<open>SystemExit\<close>, any other \<^verbatim>\<open>BaseException\<close>), which no
  clause catches. The clauses for \<^verbatim>\<open>APIError\<close> and \<^verbatim>\<open>Exception\<close> format the exception into a
  log line (lines 79 and 90) and read \<^verbatim>\<open>str(e)\<close> (line 80), so such an exception carries
  what \<^verbatim>\<open>str(e)\<close> gives: \<open>Some\<close> text, or \<open>None\<close> when \<^verbatim>\<open>str(e)\<close> itself raises.

  The client is an external collaborator whose answers may change from one call to the
  next, so it is a function of the prompt and of its own state \<open>'c\<close>, returning the
  outcome of the call and its next state. The global \<^verbatim>\<open>model\<close> is \<^verbatim>\<open>None\<close> when the key is
  missing or the configuration failed (lines 45 to 54).
\<close>

datatype exn =
    ResourceExhaustedError
  | APIError "str option"
  | Exception "str option"
  | BaseException

datatype outcome = Response str | Raises exn

text \<open>
  What reaches the caller when the function raises: \<open>Propagated e\<close> is the exception \<open>e\<close>
  of the client that no clause caught, \<open>FormatRaised e\<close> the exception that \<^verbatim>\<open>str(e)\<close> raised
  inside the clause that had caught \<open>e\<close>.
\<close>

datatype error = Propagated exn | FormatRaised exn

type_synonym 'c model = "str \<Rightarrow> 'c \<Rightarrow> outcome \<times> 'c"

text \<open>
  What the handler does to the outside world, in order: a call of the client with a
  prompt, and \<^verbatim>\<open>time.sleep(d)\<close>. What the log lines write is not among the events; that
  formatting an exception for them may raise is part of the \<^verbatim>\<open>except\<close> clauses below.
\<close>

datatype event = Call str | Sleep nat

subsection \<open>\<^verbatim>\<open>generate_response_with_retry\<close>\<close>

text \<open>
  Lines 69 to 73, the body of \<^verbatim>\<open>try\<close>: an empty \<^verbatim>\<open>response.text\<close> raises a plain
  \<^verbatim>\<open>Exception\<close>; otherwise the text is returned. \<open>Inl\<close> is an exception raised inside
  \<^verbatim>\<open>try\<close>, \<open>Inr\<close> the value returned.
\<close>

definition try_block :: "outcome \<Rightarrow> exn + str" where
  "try_block out =
     (case out of
        Raises e \<Rightarrow> Inl e
      | Response text \<Rightarrow>
          if text = [] then Inl (Exception (Some (ascii ''Empty response received'')))
          else Inr text)"

text \<open>
  Lines 75 to 94, the \<^verbatim>\<open>except\<close> clauses in the order of the source. A clause returns a
  string from the function, or sleeps and lets the loop go on, or raises: the log lines
  79 and 90 format \<open>e\<close> before anything else in their clause, and an exception raised
  inside a clause is not caught by the clauses after it. An exception that matches no
  clause leaves the \<^verbatim>\<open>try\<close> statement as it is.
\<close>

datatype handled = Return str | Backoff nat | Raise error

definition except_clauses :: "nat \<Rightarrow> exn \<Rightarrow> handled" where
  "except_clauses attempt e =
     (case e of
        ResourceExhaustedError \<Rightarrow> Return MSG_QUOTA
      | APIError t \<Rightarrow>
          (case t of
             None \<Rightarrow> Raise (FormatRaised e)
           | Some msg \<Rightarrow>
               if sublist (ascii ''API key not valid'') msg then Return MSG_INVALID_KEY
               else if attempt < MAX_RETRIES - 1 then Backoff (2 ^ attempt)
               else Return MSG_TECHNICAL)
      | Exception t \<Rightarrow>
          (case t of
             None \<Rightarrow> Raise (FormatRaised e)
           | Some msg \<Rightarrow>
               if attempt < MAX_RETRIES - 1 then Backoff (2 ^ attempt)
               else Return MSG_UNKNOWN)
      | BaseException \<Rightarrow> Raise (Propagated e))"

text \<open>
  Lines 67 to 94, the loop \<^verbatim>\<open>for attempt in range(MAX_RETRIES)\<close>, as a recursion over the
  values of \<^verbatim>\<open>attempt\<close> still to come. The result is \<open>Some (Inr s)\<close> when a \<^verbatim>\<open>return s\<close> inside
  the loop was executed, \<open>Some (Inl err)\<close> when the loop was left by an exception, and
  \<open>None\<close> when the loop ran to its end; with it come the events in the order they
  happened and the client's state afterwards.
\<close>

fun attempts ::
    "'c model \<Rightarrow> str \<Rightarrow> nat list \<Rightarrow> 'c \<Rightarrow> (error + str) option \<times> event list \<times> 'c" where
  "attempts m prompt [] c = (None, [], c)"
| "attempts m prompt (attempt # rest) c =
     (case m prompt c of
        (out, c1) \<Rightarrow>
          (case try_block out of
             Inr text \<Rightarrow> (Some (Inr text), [Call prompt], c1)
           | Inl e \<Rightarrow>
               (case except_clauses attempt e of
                  Return s \<Rightarrow> (Some (Inr s), [Call prompt], c1)
                | Raise err \<Rightarrow> (Some (Inl err), [Call prompt], c1)
                | Backoff d \<Rightarrow>
                    (case attempts m prompt rest c1 of
                       (r, tr, c2) \<Rightarrow> (r, Call prompt # Sleep d # tr, c2)))))"

text \<open>
  Lines 62 to 95: the whole function. It gives \<open>Inr s\<close> when it returns the string \<open>s\<close> and
  \<open>Inl err\<close> when it raises to its caller, with its events and the client's state.
\<close>

definition generate_response_with_retry ::
    "'c model option \<Rightarrow> str \<Rightarrow> 'c \<Rightarrow> (error + str) \<times> event list \<times> 'c" where
  "generate_response_with_retry model prompt c =
     (case model of
        None \<Rightarrow> (Inr MSG_CONFIG_ERROR, [], c)
      | Some m \<Rightarrow>
          (case attempts m prompt [0..<MAX_RETRIES] c of
             (Some r, tr, c1) \<Rightarrow> (r, tr, c1)
           | (None, tr, c1) \<Rightarrow> (Inr MSG_ALL_FAILED, tr, c1)))"

text \<open>Reading a run: how many calls of the client it made, and the sleeps it took, in order.\<close>

fun calls :: "event list \<Rightarrow> nat" where
  "calls [] = 0"
| "calls (Call p # tr) = Suc (calls tr)"
| "calls (Sleep d # tr) = calls tr"

fun sleeps :: "event list \<Rightarrow> nat list" where
  "sleeps [] = []"
| "sleeps (Call p # tr) = sleeps tr"
| "sleeps (Sleep d # tr) = d # sleeps tr"

text \<open>
  The outcomes after which the loop goes on while attempts are left: an empty response
  (line 72 raises, line 89 catches), an \<^verbatim>\<open>APIError\<close> whose text does not name an invalid key
  (line 78), and any other exception derived from \<^verbatim>\<open>Exception\<close> (line 89); an exception
  whose \<^verbatim>\<open>str(e)\<close> raises leaves the function at the log line and is not among them.
\<close>

definition retried :: "outcome \<Rightarrow> bool" where
  "retried out =
     (case out of
        Response text \<Rightarrow> text = []
      | Raises ResourceExhaustedError \<Rightarrow> False
      | Raises (APIError None) \<Rightarrow> False
      | Raises (APIError (Some msg)) \<Rightarrow> \<not> sublist (ascii ''API key not valid'') msg
      | Raises (Exception None) \<Rightarrow> False
      | Raises (Exception (Some msg)) \<Rightarrow> True
      | Raises BaseException \<Rightarrow> False)"

text \<open>
  The outcomes the \<^verbatim>\<open>try\<close> statement deals with: a response, or an exception of one of the
  three classes of the \<^verbatim>\<open>except\<close> clauses whose \<^verbatim>\<open>str(e)\<close> gives a text.
\<close>

definition catchable :: "outcome \<Rightarrow> bool" where
  "catchable out =
     (case out of
        Response text \<Rightarrow> True
      | Raises ResourceExhaustedError \<Rightarrow> True
      | Raises (APIError t) \<Rightarrow> t \<noteq> None
      | Raises (Exception t) \<Rightarrow> t \<noteq> None
      | Raises BaseException \<Rightarrow> False)"

subsection \<open>Clients for the test scenarios\<close>

text \<open>
  Each client counts in its state the calls it has received. They are the mock clients
  of the scenarios: one that always reports the quota as exhausted, one that reports an
  invalid key, one that fails twice with a generic error and then answers "hi", one that
  always fails with a generic error, one that always answers with an empty text, one whose
  call is interrupted by an exception that does not derive from \<^verbatim>\<open>Exception\<close>, and one that
  raises an exception derived from \<^verbatim>\<open>Exception\<close> whose \<^verbatim>\<open>str(e)\<close> raises.
\<close>

definition quota_client :: "nat model" where
  "quota_client prompt n = (Raises ResourceExhaustedError, Suc n)"

definition invalid_key_client :: "nat model" where
  "invalid_key_client prompt n =
     (Raises (APIError (Some (ascii ''400 API key not valid. Please pass a valid API key.''))),
      Suc n)"

definition flaky_client :: "nat model" where
  "flaky_client prompt n =
     (if n < 2 then Raises (APIError (Some (ascii ''503 Service Unavailable'')))
      else Response (ascii ''hi''), Suc n)"

definition failing_client :: "nat model" where
  "failing_client prompt n =
     (Raises (APIError (Some (ascii ''503 Service Unavailable''))), Suc n)"

definition empty_client :: "nat model" where
  "empty_client prompt n = (Response [], Suc n)"

definition interrupted_client :: "nat model" where
  "interrupted_client prompt n = (Raises BaseException, Suc n)"

definition unprintable_client :: "nat model" where
  "unprintable_client prompt n = (Raises (Exception None), Suc n)"

section \<open>The bot handlers\<close>

subsection \<open>Updates, replies and the session\<close>

text \<open>
  What a handler sends to Telegram, in order. An inline keyboard is a list of rows of
  buttons, a button its label and its \<^verbatim>\<open>callback_data\<close>. The calls to Telegram are calls
  to an external collaborator and are taken to succeed.
  \<^item> \<open>AnswerCallbackQuery\<close>: \<^verbatim>\<open>query.answer()\<close>, the acknowledgement of a button press;
  \<^item> \<open>EditMessageText\<close>: \<^verbatim>\<open>query.edit_message_text(text, reply_markup=...)\<close>;
  \<^item> \<open>SendMessage\<close>: \<^verbatim>\<open>context.bot.send_message(chat_id, text)\<close>;
  \<^item> \<open>ReplyText\<close>: \<^verbatim>\<open>update.message.reply_text(text, reply_markup=...)\<close>;
  \<^item> \<open>SendChatAction\<close>: \<^verbatim>\<open>context.bot.send_chat_action(chat_id=..., action=...)\<close>.
\<close>

type_synonym keyboard = "(str \<times> str) list list"

datatype action =
    AnswerCallbackQuery
  | EditMessageText str keyboard
  | SendMessage int str
  | ReplyText str "keyboard option"
  | SendChatAction int str

text \<open>The actions that put a text in front of the user: all but the acknowledgement and the typing indicator.\<close>

fun is_message :: "action \<Rightarrow> bool" where
  "is_message AnswerCallbackQuery = False"
| "is_message (EditMessageText t k) = True"
| "is_message (SendMessage i t) = True"
| "is_message (ReplyText t k) = True"
| "is_message (SendChatAction i a) = False"

text \<open>
  The fields of a button press that \<^verbatim>\<open>handle_callback\<close> reads: \<^verbatim>\<open>query.data\<close> (absent for a
  button without data), \<^verbatim>\<open>query.from_user.id\<close>, \<^verbatim>\<open>query.from_user.first_name\<close> and
  \<^verbatim>\<open>query.message.chat_id\<close>. The buttons of this bot are attached to messages it sent into a
  chat, so the user and the message are present. Of a text message \<^verbatim>\<open>handle_message\<close>
  reads \<^verbatim>\<open>update.message.text\<close> and \<^verbatim>\<open>update.effective_chat.id\<close>.
\<close>

record callback_query =
  data :: "str option"
  from_user_id :: int
  first_name :: str
  chat_id :: int

record message =
  message_text :: "str option"
  effective_chat_id :: int

text \<open>
  \<^verbatim>\<open>context.user_data\<close> is a dictionary; the program uses the one key \<^verbatim>\<open>'lang'\<close>.
\<close>

type_synonym user_data = "str \<rightharpoonup> str"

subsection \<open>The texts\<close>

text \<open>Line 116: the name used when the user has no first name.\<close>

definition DEFAULT_USER_NAME :: str where
  "DEFAULT_USER_NAME = [0x130C, 0x1273, 0x12EC]"

text \<open>Lines 122 and 127: \<^verbatim>\<open>welcome_text\<close>, with \<^verbatim>\<open>user_name\<close> filled in.\<close>

definition welcome_text :: "str \<Rightarrow> str \<Rightarrow> str" where
  "welcome_text lang user_name =
     (if lang = LANG_AMHARIC then
        [0x1230, 0x120B, 0x121D, 0x20, 0x1F44B, 0x20] @ user_name @
        [0x1363, 0x20, 0x12A5, 0x1295, 0x12B3, 0x1295, 0x20, 0x12C8, 0x12F0] @
        ascii '' Tabor Systems Ai '' @
        [0x1260, 0x12F0, 0x1285, 0x1293, 0x20, 0x1218, 0x1321, 0x1362]
      else
        ascii ''Hello '' @ [0x1F44B, 0x20] @ user_name @
        ascii '', welcome to Tabor Systems AI.'')"

text \<open>Lines 123 and 128: \<^verbatim>\<open>main_message\<close>.\<close>

definition main_message :: "str \<Rightarrow> str \<Rightarrow> str" where
  "main_message lang user_name =
     (if lang = LANG_AMHARIC then
        welcome_text lang user_name @
        [0xA, 0xA, 0x12A0, 0x1201, 0x1295, 0x20, 0x121B, 0x1295,
         0x129B, 0x12CD, 0x1295, 0x121D, 0x20, 0x12A0, 0x12ED, 0x1290, 0x1275, 0x20, 0x1325,
         0x12EB, 0x1244, 0x20, 0x1218, 0x1320, 0x12E8, 0x1245, 0x20, 0x12ED, 0x127D, 0x120B,
         0x1209, 0x1362, 0x20, 0x12A5, 0x1294, 0x20, 0x1260] @ ascii ''Tabor Systems '' @
        [0x12E8, 0x1270, 0x1308, 0x1290, 0x1263, 0x1201, 0x20, 0x1232, 0x1206, 0x1295, 0x20,
         0x1260, 0x1274, 0x12AD, 0x1296, 0x120E, 0x1302, 0x1363, 0x20, 0x1260, 0x12CC, 0x1265,
         0x20, 0x12F4, 0x1268, 0x120E, 0x1355, 0x1218, 0x1295, 0x1275, 0x20, 0x12A5, 0x1293,
         0x20, 0x1260, 0x1294, 0x1275, 0x12C8, 0x122D, 0x12AA, 0x1295, 0x130D, 0x20, 0x12D9,
         0x122A, 0x12EB, 0x20, 0x120D, 0x1228, 0x12F3, 0x12CE, 0x20, 0x12A5, 0x127D, 0x120B,
         0x1208, 0x1201, 0x1362]
      else
        welcome_text lang user_name @ [0xA, 0xA] @
        ascii ''You can now ask me any question. I was built by Tabor Systems and can assist you with technology, web development, and networking topics.'')"

text \<open>Lines 124 and 129: \<^verbatim>\<open>about_btn_text\<close>.\<close>

definition about_btn_text :: "str \<Rightarrow> str" where
  "about_btn_text lang =
     (if lang = LANG_AMHARIC then
        [0x2139, 0xFE0F, 0x20, 0x1235, 0x1208, 0x20, 0x127B, 0x1293, 0x1209]
      else [0x2139, 0xFE0F] @ ascii '' About Channel'')"

text \<open>Line 142: the about-text in Amharic. Line 144: the about-text in English.\<close>

definition ABOUT_TEXT_AMHARIC :: str where
  "ABOUT_TEXT_AMHARIC =
     [0x12E8] @ ascii ''Tabor Systems '' @ [0x127B, 0x1293, 0x120D, 0x20, 0x1260, 0x12CB,
      0x1293, 0x1290, 0x1275, 0x20, 0x12E8, 0x121A, 0x12EB, 0x1270, 0x12A9, 0x1228, 0x12CD,
      0x20, 0x1260] @ ascii '' IT Support & Networking'' @ [0x1363] @
     ascii '' Fullstack Web Development '' @ [0x12A5, 0x1293] @
     ascii '' Database Administration '' @ [0x120B, 0x12ED, 0x20, 0x1290, 0x12CD, 0x1362,
      0x20, 0x1218, 0x122A, 0x20, 0x1243, 0x1209, 0x1361, 0x20, 0x27, 0x1291, 0x20, 0x12A0,
      0x1265, 0x1228, 0x1295, 0x20, 0x12A5, 0x1295, 0x121B, 0x122D, 0x21, 0x27, 0x20, 0x1290,
      0x12CD, 0xA, 0x1270, 0x1308, 0x1295, 0x1262, 0x1361] @ ascii '' Tabor Systems''"

definition ABOUT_TEXT_ENGLISH :: str where
  "ABOUT_TEXT_ENGLISH =
     ascii ''Tabor Systems Channel focuses on IT Support & Networking, Fullstack Web Development, and Database Administration. Motto: '' @
     [0x27] @ ascii ''Come, let'' @ [0x27] @ ascii ''s learn together!'' @ [0x27, 0xA] @
     ascii ''Built by: Tabor Systems''"

text \<open>Lines 141 to 144: \<^verbatim>\<open>about_text\<close>.\<close>

definition about_text :: "str \<Rightarrow> str" where
  "about_text lang = (if lang = LANG_AMHARIC then ABOUT_TEXT_AMHARIC else ABOUT_TEXT_ENGLISH)"

text \<open>Lines 100 to 108: the text and the keyboard of \<^verbatim>\<open>start\<close>.\<close>

definition START_TEXT :: str where
  "START_TEXT =
     [0x12A5, 0x1263, 0x12AD, 0x12CE, 0x20, 0x12E8, 0x121A, 0x1320, 0x1240, 0x1219, 0x1260,
      0x1275, 0x1295, 0x20, 0x124B, 0x1295, 0x124B, 0x20, 0x12ED, 0x121D, 0x1228, 0x1321,
      0x1362, 0xA] @ ascii ''Please select your preferred language.''"

definition START_KEYBOARD :: keyboard where
  "START_KEYBOARD =
     [[([0x12A0, 0x121B, 0x122D, 0x129B] @ ascii '' (Amharic)'', LANG_AMHARIC)],
      [(ascii ''English (English)'', LANG_ENGLISH)]]"

subsection \<open>The handlers\<close>

text \<open>Lines 98 to 109.\<close>

definition start :: "action list" where
  "start = [ReplyText START_TEXT (Some START_KEYBOARD)]"

text \<open>
  Lines 111 to 146. The handler gets the button press and the dictionary
  \<^verbatim>\<open>context.user_data\<close>, and returns what it sent and the dictionary as it left it. A press
  without data is in neither list and equals no code, so it falls through both tests.
\<close>

definition handle_callback :: "callback_query \<Rightarrow> user_data \<Rightarrow> action list \<times> user_data" where
  "handle_callback query user_data =
     (let user_name = (if first_name query \<noteq> [] then first_name query else DEFAULT_USER_NAME)
      in case data query of
           None \<Rightarrow> ([AnswerCallbackQuery], user_data)
         | Some d \<Rightarrow>
             if d \<in> set [LANG_AMHARIC, LANG_ENGLISH] then
               ([AnswerCallbackQuery,
                 EditMessageText (main_message d user_name) [[(about_btn_text d, ACTION_ABOUT)]]],
                user_data(ascii ''lang'' \<mapsto> d))
             else if d = ACTION_ABOUT then
               (let lang = (case user_data (ascii ''lang'') of
                              None \<Rightarrow> LANG_AMHARIC
                            | Some l \<Rightarrow> l)
                in ([AnswerCallbackQuery, SendMessage (chat_id query) (about_text lang)],
                    user_data))
             else ([AnswerCallbackQuery], user_data))"

text \<open>
  Lines 148 to 156. The handler returns the exception it raised, if any, what it sent,
  the events of the API handler and the client's state. The typing indicator is sent
  before the API handler is called; when that call raises, the exception leaves the
  handler and no reply is sent.
\<close>

definition handle_message ::
    "'c model option \<Rightarrow> message \<Rightarrow> 'c \<Rightarrow> error option \<times> action list \<times> event list \<times> 'c" where
  "handle_message model msg c =
     (case message_text msg of
        None \<Rightarrow> (None, [], [], c)
      | Some user_text \<Rightarrow>
          if user_text = [] then (None, [], [], c)
          else
            (case generate_response_with_retry model user_text c of
               (Inr response_text, tr, c1) \<Rightarrow>
                 (None,
                  [SendChatAction (effective_chat_id msg) (ascii ''typing''),
                   ReplyText response_text None], tr, c1)
             | (Inl err, tr, c1) \<Rightarrow>
                 (Some err,
                  [SendChatAction (effective_chat_id msg) (ascii ''typing'')], tr, c1)))"

subsection \<open>The dispatch of updates\<close>

text \<open>
  Lines 159 to 165 register the three handlers and line 179 hands every update to the
  framework, which is not part of the program. Of the framework the model keeps what the
  handlers rely on: a command \<^verbatim>\<open>/start\<close>, in capitals or not, goes to \<^verbatim>\<open>start\<close>, a button
  press to \<^verbatim>\<open>handle_callback\<close>, a text that is no command to \<^verbatim>\<open>handle_message\<close>, any other
  command to no handler; an exception that leaves a handler ends the handling of that
  update; and \<^verbatim>\<open>context.user_data\<close> is the dictionary the framework keeps in memory for the
  user the update comes from, empty for a user it has not met. The state of the running
  bot is these dictionaries, by user id, and the state of the model client.
\<close>

text \<open>The name of a command is made of ASCII letters, digits and underscores; this lowers its capitals.\<close>

definition lower :: "str \<Rightarrow> str" where
  "lower s = map (\<lambda>ch. if 0x41 \<le> ch \<and> ch \<le> 0x5A then ch + 0x20 else ch) s"

datatype update = Command str | CallbackQuery callback_query | TextMessage message

record 'c bot =
  sessions :: "int \<Rightarrow> user_data"
  client :: 'c

definition initial :: "'c \<Rightarrow> 'c bot" where
  "initial c = \<lparr>sessions = (\<lambda>uid. Map.empty), client = c\<rparr>"

definition callback_update ::
    "callback_query \<Rightarrow> (int \<Rightarrow> user_data) \<Rightarrow> action list \<times> (int \<Rightarrow> user_data)" where
  "callback_update query ss =
     (case handle_callback query (ss (from_user_id query)) of
        (acts, user_data) \<Rightarrow> (acts, ss(from_user_id query := user_data)))"

definition process_update :: "'c model option \<Rightarrow> update \<Rightarrow> 'c bot \<Rightarrow> action list \<times> 'c bot" where
  "process_update model u b =
     (case u of
        Command name \<Rightarrow> (if lower name = ascii ''start'' then start else [], b)
      | CallbackQuery query \<Rightarrow>
          (case callback_update query (sessions b) of
             (acts, ss) \<Rightarrow> (acts, b\<lparr>sessions := ss\<rparr>))
      | TextMessage msg \<Rightarrow>
          (case handle_message model msg (client b) of
             (err, acts, tr, c1) \<Rightarrow> (acts, b\<lparr>client := c1\<rparr>)))"

fun run :: "'c model option \<Rightarrow> update list \<Rightarrow> 'c bot \<Rightarrow> 'c bot" where
  "run model [] b = b"
| "run model (u # us) b = run model us (snd (process_update model u b))"

subsection \<open>Button presses for the test scenarios\<close>

text \<open>
  Three presses by the same user in the same chat: the English button of the language
  menu, the about button, and a press whose code the bot does not know.
\<close>

definition q_english :: callback_query where
  "q_english =
     \<lparr>data = Some LANG_ENGLISH, from_user_id = 7, first_name = ascii ''Abebe'', chat_id = 42\<rparr>"

definition q_about :: callback_query where
  "q_about =
     \<lparr>data = Some ACTION_ABOUT, from_user_id = 7, first_name = ascii ''Abebe'', chat_id = 42\<rparr>"

definition q_other :: callback_query where
  "q_other =
     \<lparr>data = Some (ascii ''HELP''), from_user_id = 7, first_name = ascii ''Abebe'', chat_id = 42\<rparr>"

section \<open>Properties of the Gemini API handler\<close>

subsection \<open>Facts about the constants\<close>

lemma range_MAX_RETRIES: "[0..<MAX_RETRIES] = [0, 1, 2]"
  by (simp add: MAX_RETRIES_def upt_rec)

lemma MSG_nonempty:
  "MSG_CONFIG_ERROR \<noteq> []" "MSG_QUOTA \<noteq> []" "MSG_INVALID_KEY \<noteq> []"
  "MSG_TECHNICAL \<noteq> []" "MSG_UNKNOWN \<noteq> []" "MSG_ALL_FAILED \<noteq> []"
  by (simp_all add: MSG_CONFIG_ERROR_def MSG_QUOTA_def MSG_INVALID_KEY_def MSG_TECHNICAL_def
      MSG_UNKNOWN_def MSG_ALL_FAILED_def)

lemma MSG_UNKNOWN_not_MSG_TECHNICAL: "MSG_UNKNOWN \<noteq> MSG_TECHNICAL"
  by (simp add: MSG_UNKNOWN_def MSG_TECHNICAL_def)

lemma invalid_key_text:
  "sublist (ascii ''API key not valid'')
     (ascii ''400 API key not valid. Please pass a valid API key.'')"
  by (simp add: ascii_def sublist_Cons_right)

lemma generic_error_retried:
  "retried (Raises (APIError (Some (ascii ''503 Service Unavailable''))))"
  by (simp add: retried_def ascii_def sublist_Cons_right)

subsection \<open>One attempt\<close>

lemma try_block_nonempty: "try_block out = Inr t \<Longrightarrow> t \<noteq> []"
  by (auto simp: try_block_def split: outcome.splits if_splits)

lemma try_block_catchable:
  "catchable out \<Longrightarrow> try_block out = Inl e \<Longrightarrow> catchable (Raises e)"
  by (auto simp: try_block_def catchable_def split: outcome.splits if_splits)

lemma except_clauses_nonempty: "except_clauses a e = Return s \<Longrightarrow> s \<noteq> []"
  by (auto simp: except_clauses_def MSG_nonempty split: exn.splits option.splits if_splits)

lemma except_clauses_catchable: "catchable (Raises e) \<Longrightarrow> except_clauses a e \<noteq> Raise err"
  by (auto simp: except_clauses_def catchable_def split: exn.splits option.splits)


lemma retried_step:
  assumes "m prompt c = (out, c1)" and "retried out" and "attempt < MAX_RETRIES - 1"
  shows "attempts m prompt (attempt # rest) c =
           (case attempts m prompt rest c1 of
              (r, tr, c2) \<Rightarrow> (r, Call prompt # Sleep (2 ^ attempt) # tr, c2))"
  using assms
  by (auto simp: retried_def try_block_def except_clauses_def
      split: outcome.splits exn.splits option.splits)

lemma not_retried_step:
  assumes "m prompt c = (out, c1)" and "\<not> retried out"
  shows "\<exists>s. attempts m prompt (attempt # rest) c = (Some s, [Call prompt], c1)"
  using assms
  by (auto simp: retried_def try_block_def except_clauses_def
      split: outcome.splits exn.splits option.splits)

lemma last_step:
  assumes "m prompt c = (out, c1)" and "\<not> attempt < MAX_RETRIES - 1"
  shows "\<exists>s. attempts m prompt (attempt # rest) c = (Some s, [Call prompt], c1)"
  using assms
  by (auto simp: try_block_def except_clauses_def
      split: outcome.splits exn.splits option.splits)

subsection \<open>The loop\<close>

lemma attempts_nonempty: "attempts m p as c = (Some (Inr s), tr, c') \<Longrightarrow> s \<noteq> []"
proof (induction as arbitrary: c tr c')
  case Nil
  then show ?case by simp
next
  case (Cons a as)
  then show ?case
    by (auto split: prod.splits sum.splits handled.splits
        dest: try_block_nonempty except_clauses_nonempty)
qed

lemma attempts_catchable:
  assumes "\<And>c'. catchable (fst (m p c'))"
  shows "attempts m p as c \<noteq> (Some (Inl err), tr, c1)"
proof (induction as arbitrary: c tr c1)
  case Nil
  then show ?case by simp
next
  case (Cons a as)
  obtain out c2 where mc: "m p c = (out, c2)"
    by (cases "m p c")
  with assms [of c] have out: "catchable out"
    by simp
  show ?case
  proof (cases "try_block out")
    case (Inr t)
    with mc show ?thesis by simp
  next
    case (Inl e)
    with out have e: "except_clauses a e \<noteq> Raise err"
      by (intro except_clauses_catchable try_block_catchable)
    obtain r tr' c3 where rest: "attempts m p as c2 = (r, tr', c3)"
      by (cases "attempts m p as c2")
    with Cons.IH [of c2 tr' c3] have "r \<noteq> Some (Inl err)"
      by auto
    with mc Inl e rest show ?thesis
      by (auto split: handled.splits)
  qed
qed


subsection \<open>The claims\<close>

text \<open>
  C1, as the program behaves. Let the model be unconfigured, or let every call of the
  client end in a response (empty or not) or in an exception of one of the three classes
  of the \<^verbatim>\<open>except\<close> clauses (quota error, API error, any other exception derived from
  \<^verbatim>\<open>Exception\<close>) whose \<^verbatim>\<open>str(e)\<close> gives a text. Then, whatever the prompt,
  \<^verbatim>\<open>generate_response_with_retry\<close> does not raise: it returns a string, and the string is not
  empty.
\<close>

theorem generate_response_returns_nonempty:
  assumes "\<And>m c'. model = Some m \<Longrightarrow> catchable (fst (m prompt c'))"
  shows "\<exists>s. fst (generate_response_with_retry model prompt c) = Inr s \<and> s \<noteq> []"
proof (cases model)
  case None
  then show ?thesis
    by (simp add: generate_response_with_retry_def MSG_nonempty)
next
  case (Some m)
  with assms have ok: "catchable (fst (m prompt c'))" for c'
    by simp
  obtain r tr c1 where run: "attempts m prompt [0..<MAX_RETRIES] c = (r, tr, c1)"
    by (cases "attempts m prompt [0..<MAX_RETRIES] c")
  show ?thesis
  proof (cases r)
    case None
    with Some run show ?thesis
      by (simp add: generate_response_with_retry_def MSG_nonempty)
  next
    case inner: (Some res)
    show ?thesis
    proof (cases res)
      case (Inl err)
      with inner run attempts_catchable [of m prompt "[0..<MAX_RETRIES]" c err tr c1, OF ok]
      show ?thesis
        by simp
    next
      case (Inr s)
      with inner run have "s \<noteq> []"
        by (intro attempts_nonempty [of m prompt "[0..<MAX_RETRIES]" c s tr c1]) simp
      with Some inner run Inr show ?thesis
        by (simp add: generate_response_with_retry_def)
    qed
  qed
qed

theorem generate_response_returns_nonempty_witness:
  "(\<forall>n. catchable (fst (flaky_client (ascii ''hello'') n))) \<and>
   (\<exists>s. fst (generate_response_with_retry (Some flaky_client) (ascii ''hello'') 0) = Inr s \<and>
        s \<noteq> [])"
proof -
  have ok: "catchable (fst (flaky_client (ascii ''hello'') n))" for n
    by (simp add: flaky_client_def catchable_def)
  have "\<exists>s. fst (generate_response_with_retry (Some flaky_client) (ascii ''hello'') 0) = Inr s \<and>
          s \<noteq> []"
    by (rule generate_response_returns_nonempty) (use ok in auto)
  with ok show ?thesis
    by blast
qed

text \<open>
  C1, as stated, fails. An exception of the client that does not derive from \<^verbatim>\<open>Exception\<close>
  is caught by no clause and reaches the caller; and an exception derived from
  \<^verbatim>\<open>Exception\<close> whose \<^verbatim>\<open>str(e)\<close> raises is caught at line 89, where the log line 90 raises
  while formatting it. In both runs the function raises after its first call.
\<close>

theorem generate_response_raises:
  "generate_response_with_retry (Some interrupted_client) (ascii ''hello'') 0 =
     (Inl (Propagated BaseException), [Call (ascii ''hello'')], 1) \<and>
   generate_response_with_retry (Some unprintable_client) (ascii ''hello'') 0 =
     (Inl (FormatRaised (Exception None)), [Call (ascii ''hello'')], 1)"
  unfolding generate_response_with_retry_def range_MAX_RETRIES
  by (simp add: interrupted_client_def unprintable_client_def try_block_def except_clauses_def)

text \<open>
  C4. When the first call of the client raises \<^verbatim>\<open>ResourceExhaustedError\<close>, the function
  returns the daily-limit string at once: its only event is that one call (no second
  call, no sleep), and the client is left in the state after that call.
\<close>

theorem quota_returns_immediately:
  assumes "fst (m prompt c) = Raises ResourceExhaustedError"
  shows "generate_response_with_retry (Some m) prompt c =
           (Inr MSG_QUOTA, [Call prompt], snd (m prompt c))"
  using assms
  by (cases "m prompt c")
    (simp add: generate_response_with_retry_def range_MAX_RETRIES try_block_def
      except_clauses_def)

theorem quota_returns_immediately_witness:
  "fst (quota_client (ascii ''hello'') 0) = Raises ResourceExhaustedError \<and>
   generate_response_with_retry (Some quota_client) (ascii ''hello'') 0 =
     (Inr MSG_QUOTA, [Call (ascii ''hello'')], 1)"
  using quota_returns_immediately [of quota_client "ascii ''hello''" 0]
  by (simp add: quota_client_def)

text \<open>
  C5. When the first call of the client raises an \<^verbatim>\<open>APIError\<close> whose text contains
  \<^verbatim>\<open>API key not valid\<close>, the function returns the invalid-key string at once: its only
  event is that one call (no second call, no sleep).
\<close>

theorem invalid_key_returns_immediately:
  assumes "fst (m prompt c) = Raises (APIError (Some msg))"
      and "sublist (ascii ''API key not valid'') msg"
  shows "generate_response_with_retry (Some m) prompt c =
           (Inr MSG_INVALID_KEY, [Call prompt], snd (m prompt c))"
  using assms
  by (cases "m prompt c")
    (simp add: generate_response_with_retry_def range_MAX_RETRIES try_block_def
      except_clauses_def)

theorem invalid_key_returns_immediately_witness:
  "fst (invalid_key_client (ascii ''hello'') 0) =
     Raises (APIError (Some (ascii ''400 API key not valid. Please pass a valid API key.''))) \<and>
   sublist (ascii ''API key not valid'')
     (ascii ''400 API key not valid. Please pass a valid API key.'') \<and>
   generate_response_with_retry (Some invalid_key_client) (ascii ''hello'') 0 =
     (Inr MSG_INVALID_KEY, [Call (ascii ''hello'')], 1)"
  using invalid_key_returns_immediately [of invalid_key_client "ascii ''hello''" 0
      "ascii ''400 API key not valid. Please pass a valid API key.''"] invalid_key_text
  by (simp add: invalid_key_client_def)



text \<open>
  C2, as the program behaves. An empty text makes line 72 raise a plain \<^verbatim>\<open>Exception\<close>, which
  only the last \<^verbatim>\<open>except\<close> clause catches. So a client that answers every call with an empty
  text is called \<^verbatim>\<open>MAX_RETRIES\<close> = 3 times, with sleeps of 1 and 2 between the calls, and
  the function returns the string of line 94 (unknown connection error), the one for
  exhausted unexpected failures, and not the string of line 87 (technical issue).
\<close>

theorem empty_responses_exhaust_retries:
  assumes "\<And>c'. fst (m prompt c') = Response []"
  shows "fst (generate_response_with_retry (Some m) prompt c) = Inr MSG_UNKNOWN \<and>
         fst (snd (generate_response_with_retry (Some m) prompt c)) =
           [Call prompt, Sleep 1, Call prompt, Sleep 2, Call prompt] \<and>
         calls (fst (snd (generate_response_with_retry (Some m) prompt c))) = MAX_RETRIES"
proof -
  obtain c1 where 1: "m prompt c = (Response [], c1)"
    using assms [of c] by (cases "m prompt c") simp
  obtain c2 where 2: "m prompt c1 = (Response [], c2)"
    using assms [of c1] by (cases "m prompt c1") simp
  obtain c3 where 3: "m prompt c2 = (Response [], c3)"
    using assms [of c2] by (cases "m prompt c2") simp
  have "attempts m prompt [0, 1, 2] c =
          (Some (Inr MSG_UNKNOWN),
           [Call prompt, Sleep 1, Call prompt, Sleep 2, Call prompt], c3)"
    using 1 2 3 by (simp add: try_block_def except_clauses_def MAX_RETRIES_def)
  then have "generate_response_with_retry (Some m) prompt c =
          (Inr MSG_UNKNOWN, [Call prompt, Sleep 1, Call prompt, Sleep 2, Call prompt], c3)"
    unfolding generate_response_with_retry_def range_MAX_RETRIES
    by (simp only: option.case prod.case)
  then show ?thesis
    by (simp add: MAX_RETRIES_def)
qed

theorem empty_responses_exhaust_retries_witness:
  "(\<forall>n. fst (empty_client (ascii ''hello'') n) = Response []) \<and>
   fst (generate_response_with_retry (Some empty_client) (ascii ''hello'') 0) = Inr MSG_UNKNOWN \<and>
   fst (snd (generate_response_with_retry (Some empty_client) (ascii ''hello'') 0)) =
     [Call (ascii ''hello''), Sleep 1, Call (ascii ''hello''), Sleep 2, Call (ascii ''hello'')] \<and>
   calls (fst (snd (generate_response_with_retry (Some empty_client) (ascii ''hello'') 0))) =
     MAX_RETRIES"
proof -
  have always: "fst (empty_client (ascii ''hello'') n) = Response []" for n
    by (simp add: empty_client_def)
  from empty_responses_exhaust_retries [of empty_client "ascii ''hello''" 0, OF always] always
  show ?thesis
    by blast
qed

text \<open>
  C2, as stated, fails: for the client that always answers with an empty text the
  function does not return the technical-issue string.
\<close>

theorem empty_responses_not_technical:
  "fst (generate_response_with_retry (Some empty_client) (ascii ''hello'') 0) \<noteq> Inr MSG_TECHNICAL"
  unfolding generate_response_with_retry_def range_MAX_RETRIES
  by (simp add: empty_client_def try_block_def except_clauses_def MAX_RETRIES_def
      MSG_UNKNOWN_not_MSG_TECHNICAL)

text \<open>
  C3, as the program behaves. Let \<open>out0\<close>, \<open>out1\<close>, \<open>out2\<close> be what the client answers to
  the first, second and third call. After a failed attempt of a retried class (general
  API failure, empty response, unknown failure) the function sleeps \<open>2 ^ attempt\<close> before
  the next attempt, for the attempts 0 and 1 that have a next attempt: 1 unit, then 2.
  After attempt 2, the last one, it does not sleep whatever the outcome: the events end
  with the third call. When the client fails twice in a retried way and then answers
  with a text that is not empty, the function returns that text after exactly three
  calls and the two sleeps 1 and 2.
\<close>

theorem backoff_schedule:
  assumes "m prompt c = (out0, c1)" and "m prompt c1 = (out1, c2)" and "m prompt c2 = (out2, c3)"
  shows "fst (snd (generate_response_with_retry (Some m) prompt c)) =
           (if \<not> retried out0 then [Call prompt]
            else if \<not> retried out1 then [Call prompt, Sleep (2 ^ 0), Call prompt]
            else [Call prompt, Sleep (2 ^ 0), Call prompt, Sleep (2 ^ 1), Call prompt]) \<and>
         (retried out0 \<and> retried out1 \<and> out2 = Response reply \<and> reply \<noteq> [] \<longrightarrow>
            fst (generate_response_with_retry (Some m) prompt c) = Inr reply)"
proof -
  have small:
    "(0::nat) < MAX_RETRIES - 1" "(1::nat) < MAX_RETRIES - 1" "\<not> (2::nat) < MAX_RETRIES - 1"
    by (simp_all add: MAX_RETRIES_def)
  show ?thesis
  proof (cases "retried out0")
    case False
    from not_retried_step [of m prompt c out0 c1 0 "[1, 2]", OF assms(1) False] show ?thesis
      using False by (auto simp: generate_response_with_retry_def range_MAX_RETRIES)
  next
    case r0: True
    show ?thesis
    proof (cases "retried out1")
      case False
      from not_retried_step [of m prompt c1 out1 c2 1 "[2]", OF assms(2) False] show ?thesis
        using r0 False retried_step [of m prompt c out0 c1 0 "[1, 2]", OF assms(1) r0 small(1)]
        by (auto simp: generate_response_with_retry_def range_MAX_RETRIES)
    next
      case r1: True
      from last_step [of m prompt c2 out2 c3 2 "[]", OF assms(3) small(3)]
      obtain s where s: "attempts m prompt [2] c2 = (Some s, [Call prompt], c3)"
        by blast
      have tr: "attempts m prompt [0, 1, 2] c =
              (Some s, [Call prompt, Sleep (2 ^ 0), Call prompt, Sleep (2 ^ 1), Call prompt], c3)"
        using retried_step [of m prompt c out0 c1 0 "[1, 2]", OF assms(1) r0 small(1)]
          retried_step [of m prompt c1 out1 c2 1 "[2]", OF assms(2) r1 small(2)] s
        by simp
      have "s = Inr reply" if "out2 = Response reply" "reply \<noteq> []"
        using s that assms(3) by (simp add: try_block_def)
      with tr r0 r1 show ?thesis
        by (auto simp: generate_response_with_retry_def range_MAX_RETRIES)
    qed
  qed
qed

theorem backoff_schedule_witness:
  "flaky_client (ascii ''hello'') 0 = (Raises (APIError (Some (ascii ''503 Service Unavailable''))), 1) \<and>
   flaky_client (ascii ''hello'') 1 = (Raises (APIError (Some (ascii ''503 Service Unavailable''))), 2) \<and>
   flaky_client (ascii ''hello'') 2 = (Response (ascii ''hi''), 3) \<and>
   retried (Raises (APIError (Some (ascii ''503 Service Unavailable'')))) \<and>
   ascii ''hi'' \<noteq> [] \<and>
   fst (snd (generate_response_with_retry (Some flaky_client) (ascii ''hello'') 0)) =
     [Call (ascii ''hello''), Sleep 1, Call (ascii ''hello''), Sleep 2, Call (ascii ''hello'')] \<and>
   fst (generate_response_with_retry (Some flaky_client) (ascii ''hello'') 0) = Inr (ascii ''hi'')"
proof -
  have 0: "flaky_client (ascii ''hello'') 0 =
             (Raises (APIError (Some (ascii ''503 Service Unavailable''))), 1)"
    and 1: "flaky_client (ascii ''hello'') 1 =
             (Raises (APIError (Some (ascii ''503 Service Unavailable''))), 2)"
    and 2: "flaky_client (ascii ''hello'') 2 = (Response (ascii ''hi''), 3)"
    by (simp_all add: flaky_client_def)
  have ne: "ascii ''hi'' \<noteq> []"
    by (simp add: ascii_def)
  from backoff_schedule [of flaky_client "ascii ''hello''" 0 _ 1 _ 2 _ 3 "ascii ''hi''", OF 0 1 2]
    generic_error_retried ne 0 1 2
  show ?thesis
    by simp
qed

text \<open>
  C3, as stated, fails at attempt 2. The client that always fails with a generic API
  error fails at attempt 2 in a retried way, and the function sleeps 1 and 2 units and
  nothing more: a sleep of 4 units is not among its events.
\<close>

theorem no_sleep_after_last_attempt:
  "retried (fst (failing_client (ascii ''hello'') 2)) \<and>
   sleeps (fst (snd (generate_response_with_retry (Some failing_client) (ascii ''hello'') 0)))
     = [1, 2] \<and>
   Sleep 4 \<notin> set (fst (snd (generate_response_with_retry (Some failing_client) (ascii ''hello'') 0)))"
  unfolding generate_response_with_retry_def range_MAX_RETRIES
  by (simp add: failing_client_def try_block_def except_clauses_def MAX_RETRIES_def
      retried_def ascii_def sublist_Cons_right)

section \<open>Properties of the callback handler\<close>

subsection \<open>Facts about the constants\<close>

lemma codes_distinct:
  "LANG_AMHARIC \<noteq> LANG_ENGLISH" "ACTION_ABOUT \<noteq> LANG_AMHARIC" "ACTION_ABOUT \<noteq> LANG_ENGLISH"
  by (simp_all add: LANG_AMHARIC_def LANG_ENGLISH_def ACTION_ABOUT_def ascii_def)

lemma about_texts_distinct: "ABOUT_TEXT_AMHARIC \<noteq> ABOUT_TEXT_ENGLISH"
  by (simp add: ABOUT_TEXT_AMHARIC_def ABOUT_TEXT_ENGLISH_def ascii_def)

subsection \<open>The three branches of \<^verbatim>\<open>handle_callback\<close>\<close>

lemma handle_callback_language:
  assumes "data q = Some code" and "code = LANG_AMHARIC \<or> code = LANG_ENGLISH"
  shows "snd (handle_callback q ud) (ascii ''lang'') = Some code"
  using assms by (auto simp: handle_callback_def Let_def)

lemma handle_callback_about:
  assumes "data q = Some ACTION_ABOUT"
  shows "handle_callback q ud =
           ([AnswerCallbackQuery,
             SendMessage (chat_id q)
               (about_text (case ud (ascii ''lang'') of None \<Rightarrow> LANG_AMHARIC | Some l \<Rightarrow> l))],
            ud)"
  using assms by (simp add: handle_callback_def Let_def codes_distinct)

lemma handle_callback_other:
  assumes "data q \<noteq> Some LANG_AMHARIC" "data q \<noteq> Some LANG_ENGLISH"
    "data q \<noteq> Some ACTION_ABOUT"
  shows "handle_callback q ud = ([AnswerCallbackQuery], ud)"
  using assms by (auto simp: handle_callback_def Let_def split: option.splits)

lemma handle_callback_valid:
  assumes "ud (ascii ''lang'') \<in> {None, Some LANG_AMHARIC, Some LANG_ENGLISH}"
  shows "snd (handle_callback q ud) (ascii ''lang'')
           \<in> {None, Some LANG_AMHARIC, Some LANG_ENGLISH}"
  using assms by (auto simp: handle_callback_def Let_def split: option.splits)

lemma callback_update_fst:
  "fst (callback_update q ss) = fst (handle_callback q (ss (from_user_id q)))"
  by (simp add: callback_update_def split: prod.splits)

lemma callback_update_snd:
  "snd (callback_update q ss) =
     ss(from_user_id q := snd (handle_callback q (ss (from_user_id q))))"
  by (simp add: callback_update_def split: prod.splits)

subsection \<open>The stored language over a run of the bot\<close>

lemma process_update_valid:
  assumes "\<And>uid. sessions b uid (ascii ''lang'') \<in> {None, Some LANG_AMHARIC, Some LANG_ENGLISH}"
  shows "sessions (snd (process_update model u b)) uid (ascii ''lang'')
           \<in> {None, Some LANG_AMHARIC, Some LANG_ENGLISH}"
proof (cases u)
  case (Command name)
  with assms show ?thesis
    by (simp add: process_update_def)
next
  case (CallbackQuery q)
  have "process_update model u b =
          (fst (callback_update q (sessions b)),
           b\<lparr>sessions := snd (callback_update q (sessions b))\<rparr>)"
    using CallbackQuery by (simp add: process_update_def split: prod.splits)
  with assms handle_callback_valid [of "sessions b (from_user_id q)" q] show ?thesis
    by (simp add: callback_update_snd)
next
  case (TextMessage msg)
  with assms show ?thesis
    by (simp add: process_update_def split: prod.splits)
qed

lemma run_valid:
  assumes "\<And>uid. sessions b uid (ascii ''lang'') \<in> {None, Some LANG_AMHARIC, Some LANG_ENGLISH}"
  shows "sessions (run model us b) uid (ascii ''lang'')
           \<in> {None, Some LANG_AMHARIC, Some LANG_ENGLISH}"
  using assms
proof (induction us arbitrary: b uid)
  case Nil
  then show ?case by simp
next
  case (Cons u us)
  show ?case
    unfolding run.simps
    by (rule Cons.IH) (rule process_update_valid, rule Cons.prems)
qed

subsection \<open>The claims\<close>

text \<open>
  C6. Let a user press a language button, with code \<^verbatim>\<open>LANG_AMHARIC\<close> or \<^verbatim>\<open>LANG_ENGLISH\<close>, and
  then the about button. Whatever the sessions were before, the second press is
  acknowledged and answered with one message to its chat: the about-text in the language
  of the first press.
\<close>

theorem about_follows_selected_language:
  assumes "code \<in> {LANG_AMHARIC, LANG_ENGLISH}"
      and "data q1 = Some code"
      and "data q2 = Some ACTION_ABOUT"
      and "from_user_id q2 = from_user_id q1"
  shows "fst (callback_update q2 (snd (callback_update q1 ss))) =
           [AnswerCallbackQuery,
            SendMessage (chat_id q2)
              (if code = LANG_AMHARIC then ABOUT_TEXT_AMHARIC else ABOUT_TEXT_ENGLISH)]"
proof -
  from assms(1) have code: "code = LANG_AMHARIC \<or> code = LANG_ENGLISH"
    by simp
  have "snd (callback_update q1 ss) (from_user_id q2) (ascii ''lang'') = Some code"
    using handle_callback_language [OF assms(2) code, of "ss (from_user_id q1)"] assms(4)
    by (simp add: callback_update_snd)
  then show ?thesis
    using handle_callback_about [OF assms(3), of "snd (callback_update q1 ss) (from_user_id q2)"]
    by (simp add: callback_update_fst [of q2] about_text_def)
qed

theorem about_follows_selected_language_witness:
  "LANG_ENGLISH \<in> {LANG_AMHARIC, LANG_ENGLISH} \<and>
   data q_english = Some LANG_ENGLISH \<and>
   data q_about = Some ACTION_ABOUT \<and>
   from_user_id q_about = from_user_id q_english \<and>
   fst (callback_update q_about (snd (callback_update q_english (sessions (initial ()))))) =
     [AnswerCallbackQuery, SendMessage 42 ABOUT_TEXT_ENGLISH]"
proof -
  have h: "LANG_ENGLISH \<in> {LANG_AMHARIC, LANG_ENGLISH}" "data q_english = Some LANG_ENGLISH"
    "data q_about = Some ACTION_ABOUT" "from_user_id q_about = from_user_id q_english"
    by (simp_all add: q_english_def q_about_def)
  have "chat_id q_about = 42"
    by (simp add: q_about_def)
  with about_follows_selected_language
      [of LANG_ENGLISH q_english q_about "sessions (initial ())", OF h] h codes_distinct
  show ?thesis
    by simp
qed

text \<open>
  C7. When the user who presses the about button has no language stored, the press is
  acknowledged and answered with the Amharic about-text, and the sessions are left as
  they were: no language is stored or changed, for this user or any other.
\<close>

theorem about_defaults_to_amharic:
  assumes "data q = Some ACTION_ABOUT"
      and "ss (from_user_id q) (ascii ''lang'') = None"
  shows "callback_update q ss =
           ([AnswerCallbackQuery, SendMessage (chat_id q) ABOUT_TEXT_AMHARIC], ss)"
  using handle_callback_about [OF assms(1), of "ss (from_user_id q)"] assms(2)
  by (simp add: callback_update_def about_text_def)

theorem about_defaults_to_amharic_witness:
  "data q_about = Some ACTION_ABOUT \<and>
   sessions (initial ()) (from_user_id q_about) (ascii ''lang'') = None \<and>
   callback_update q_about (sessions (initial ())) =
     ([AnswerCallbackQuery, SendMessage 42 ABOUT_TEXT_AMHARIC], sessions (initial ()))"
proof -
  have h: "data q_about = Some ACTION_ABOUT"
    "sessions (initial ()) (from_user_id q_about) (ascii ''lang'') = None"
    by (simp_all add: q_about_def initial_def)
  have "chat_id q_about = 42"
    by (simp add: q_about_def)
  with about_defaults_to_amharic [of q_about "sessions (initial ())", OF h] h
  show ?thesis
    by simp
qed

text \<open>
  C8. A press whose data is none of \<^verbatim>\<open>LANG_AMHARIC\<close>, \<^verbatim>\<open>LANG_ENGLISH\<close>, \<^verbatim>\<open>ACTION_ABOUT\<close> (a press
  without data included) is acknowledged and nothing else happens: the handler ends
  normally, no message is sent or edited, and the sessions are left as they were.
\<close>

theorem unknown_callback_ignored:
  assumes "data q \<notin> {Some LANG_AMHARIC, Some LANG_ENGLISH, Some ACTION_ABOUT}"
  shows "callback_update q ss = ([AnswerCallbackQuery], ss) \<and>
         filter is_message (fst (callback_update q ss)) = []"
proof -
  from assms have "handle_callback q (ss (from_user_id q)) =
      ([AnswerCallbackQuery], ss (from_user_id q))"
    by (intro handle_callback_other) simp_all
  then show ?thesis
    by (simp add: callback_update_def)
qed

theorem unknown_callback_ignored_witness:
  "data q_other \<notin> {Some LANG_AMHARIC, Some LANG_ENGLISH, Some ACTION_ABOUT} \<and>
   callback_update q_other (snd (callback_update q_english (sessions (initial ())))) =
     ([AnswerCallbackQuery], snd (callback_update q_english (sessions (initial ())))) \<and>
   filter is_message
     (fst (callback_update q_other (snd (callback_update q_english (sessions (initial ())))))) = []"
proof -
  have h: "data q_other \<notin> {Some LANG_AMHARIC, Some LANG_ENGLISH, Some ACTION_ABOUT}"
    by (simp add: q_other_def LANG_AMHARIC_def LANG_ENGLISH_def ACTION_ABOUT_def ascii_def)
  from unknown_callback_ignored
      [of q_other "snd (callback_update q_english (sessions (initial ())))", OF h] h
  show ?thesis
    by blast
qed

text \<open>
  C10. Start the bot with no session and let it process any list of updates (commands,
  button presses with any data, text messages), with any model client. Then for every
  user the key \<^verbatim>\<open>'lang'\<close> is absent or holds \<^verbatim>\<open>LANG_AMHARIC\<close> or \<^verbatim>\<open>LANG_ENGLISH\<close>; in particular it
  never holds \<^verbatim>\<open>ACTION_ABOUT\<close>.
\<close>

theorem stored_language_valid:
  "sessions (run model us (initial c)) uid (ascii ''lang'')
     \<in> {None, Some LANG_AMHARIC, Some LANG_ENGLISH} \<and>
   sessions (run model us (initial c)) uid (ascii ''lang'') \<noteq> Some ACTION_ABOUT"
proof -
  have "sessions (run model us (initial c)) uid (ascii ''lang'')
     \<in> {None, Some LANG_AMHARIC, Some LANG_ENGLISH}"
    by (rule run_valid) (simp add: initial_def)
  with codes_distinct show ?thesis
    by auto
qed

end
